theory Spec2Isabelle
  imports Complex_Main "HOL-Library.Multiset"
begin

section \<open>Python values and exceptions\<close>

text \<open>
  The scraper (\<^verbatim>\<open>ingestion/scraper.py\<close>) and the merge step (\<^verbatim>\<open>ingestion/utils.py\<close>)
  are embedded as pure functions. Every exception the source can raise is a value of
  \<open>exn\<close>; a function that may raise returns \<open>exn + 'a\<close> with \<open>Inl\<close> the exception.
  \<open>ClientConnectorError\<close> is the one exception the source catches by name, so the
  network outcomes below keep it apart from every other exception.
\<close>

datatype exn =
    KeyError | IndexError | TypeError | AttributeError | NameError
  | ZeroDivisionError | ValueError | OSError | ClientError | TimeoutError

text \<open>
  A decoded JSON document, as \<^verbatim>\<open>json.load\<close> and \<^verbatim>\<open>response.json()\<close> return it. A
  Python dict is an association list read with \<open>map_of\<close>. Numbers are integers: no
  function of the source computes with a fractional number.
\<close>

datatype json =
    JNull | JBool bool | JNum int | JStr string
  | JArr "json list" | JObj "(string \<times> json) list"

text \<open>\<^verbatim>\<open>obj[key]\<close> with a string key.\<close>

fun subscript :: "json \<Rightarrow> string \<Rightarrow> exn + json" where
  "subscript (JObj kvs) k = (case map_of kvs k of None \<Rightarrow> Inl KeyError | Some v \<Rightarrow> Inr v)"
| "subscript _ k = Inl TypeError"

text \<open>\<^verbatim>\<open>obj.get(key)\<close>: \<open>None\<close> for a missing key; only a dict has the method.\<close>

fun dict_get :: "json \<Rightarrow> string \<Rightarrow> exn + json" where
  "dict_get (JObj kvs) k = (case map_of kvs k of None \<Rightarrow> Inr JNull | Some v \<Rightarrow> Inr v)"
| "dict_get _ k = Inl AttributeError"

text \<open>
  The elements a \<^verbatim>\<open>for\<close> loop or \<^verbatim>\<open>list +=\<close> draws from a value: the items of a list,
  the keys of a dict, the characters of a string; anything else is not iterable.
\<close>

fun py_iter :: "json \<Rightarrow> exn + json list" where
  "py_iter (JArr xs) = Inr xs"
| "py_iter (JObj kvs) = Inr (map (\<lambda>kv. JStr (fst kv)) kvs)"
| "py_iter (JStr s) = Inr (map (\<lambda>c. JStr [c]) s)"
| "py_iter _ = Inl TypeError"

section \<open>Scraper parameters\<close>

record ScraperParams =
  start_date :: string
  end_date :: string
  entries_per_page :: int
  json_dir :: string
  cover_img_dir :: string

definition img_size :: string where
  "img_size = ''500w''"

section \<open>Request Planner\<close>

text \<open>
  What the network does with one page request: the connection fails
  (\<open>ClientConnectorError\<close>), the request raises something else, or a response arrives
  and \<^verbatim>\<open>await response.json()\<close> either raises or yields the decoded body.
\<close>

datatype page_response =
    PageConnectorError
  | PageRaises exn
  | PageBody "exn + json"

text \<open>
  \<^verbatim>\<open>math.ceil(a / b)\<close> on two integers, with the quotient taken exactly.
\<close>

definition ceil_div :: "int \<Rightarrow> int \<Rightarrow> int" where
  "ceil_div a b = - ((- a) div b)"

text \<open>
  \<^verbatim>\<open>math.ceil(num_books / entries_per_page)\<close>. The right operand is the module-level
  name \<^verbatim>\<open>entries_per_page\<close>, looked up when the division is evaluated: \<open>None\<close> is the
  name being unbound. A \<^verbatim>\<open>bool\<close> divides as the integer it is.
\<close>

fun ceil_truediv :: "json \<Rightarrow> int option \<Rightarrow> exn + int" where
  "ceil_truediv v None = Inl NameError"
| "ceil_truediv (JNum n) (Some d) = (if d = 0 then Inl ZeroDivisionError else Inr (ceil_div n d))"
| "ceil_truediv (JBool b) (Some d) =
     (if d = 0 then Inl ZeroDivisionError else Inr (ceil_div (if b then 1 else 0) d))"
| "ceil_truediv _ (Some d) = Inl TypeError"

text \<open>
  \<^verbatim>\<open>plan(params)\<close>. \<open>global_entries_per_page\<close> is the module global the body reads;
  \<open>resp\<close> is the outcome of the reconnaissance request. The \<^verbatim>\<open>except\<close> branch only
  prints, so the coroutine then returns \<^verbatim>\<open>None\<close>: \<open>Inr None\<close>.
\<close>

definition plan :: "int option \<Rightarrow> ScraperParams \<Rightarrow> page_response \<Rightarrow> exn + (json \<times> int) option" where
  "plan global_entries_per_page params resp =
     (case resp of
        PageConnectorError \<Rightarrow> Inr None
      | PageRaises e \<Rightarrow> Inl e
      | PageBody (Inl e) \<Rightarrow> Inl e
      | PageBody (Inr content) \<Rightarrow>
          (case subscript content ''data'' of
             Inl e \<Rightarrow> Inl e
           | Inr d \<Rightarrow>
               (case subscript d ''total'' of
                  Inl e \<Rightarrow> Inl e
                | Inr num_books \<Rightarrow>
                    (case ceil_truediv num_books global_entries_per_page of
                       Inl e \<Rightarrow> Inl e
                     | Inr pages \<Rightarrow> Inr (Some (num_books, pages))))))"

text \<open>The body of a well-formed reconnaissance response reporting \<open>num\<close> results.\<close>

definition recon_body :: "int \<Rightarrow> json" where
  "recon_body num = JObj [(''data'', JObj [(''total'', JNum num)])]"

section \<open>Local files\<close>

text \<open>
  A path is a directory and the name of a file in it, as \<^verbatim>\<open>Path(dir, name)\<close> builds
  it. A file holds a complete content or, after a write that failed part-way, a
  truncated one.
\<close>

type_synonym path = "string \<times> string"

datatype 'a fcontent = Whole 'a | Partial

text \<open>What a file of the scraper holds: the bytes of a cover, or a JSON document.\<close>

datatype payload = Image string | Document json

type_synonym files = "path \<rightharpoonup> payload fcontent"

text \<open>
  What the disk does with one \<^verbatim>\<open>open(path, 'w')\<close> followed by one write: both succeed,
  the open raises, or the open succeeds (creating or emptying the file) and the write
  raises.
\<close>

datatype disk_outcome = DiskOk | OpenFails | WriteFails

section \<open>Cover fetch\<close>

text \<open>
  What the network does with one cover request: the connection fails, the request raises
  something else, or a response arrives with a status, and \<^verbatim>\<open>await response.read()\<close>
  either raises or yields the bytes.
\<close>

datatype cover_response =
    CoverConnectorError
  | CoverRaises exn
  | CoverStatus int "exn + string"

type_synonym cover_env = "cover_response \<times> disk_outcome"

text \<open>\<^verbatim>\<open>s.split(c)\<close> for a one-character separator.\<close>

fun split_on :: "char \<Rightarrow> string \<Rightarrow> string list" where
  "split_on c [] = [[]]"
| "split_on c (x # xs) =
     (if x = c then [] # split_on c xs
      else (case split_on c xs of [] \<Rightarrow> [[x]] | w # ws \<Rightarrow> (x # w) # ws))"

text \<open>\<^verbatim>\<open>url.split('/')[-2]\<close>\<close>

definition isbn_of_url :: "string \<Rightarrow> exn + string" where
  "isbn_of_url url =
     (let parts = split_on CHR ''/'' url
      in if length parts < 2 then Inl IndexError else Inr (parts ! (length parts - 2)))"

text \<open>
  \<^verbatim>\<open>retrieve_cover(url, params, sem)\<close>, without the limiter (it is modelled apart, in the
  section on the concurrency limiter). The state is the content of the local files. Only
  \<open>ClientConnectorError\<close> is caught; \<^verbatim>\<open>is_ok\<close> becomes true after the write.
\<close>

definition retrieve_cover ::
  "string \<Rightarrow> ScraperParams \<Rightarrow> cover_env \<Rightarrow> files \<Rightarrow> (exn + bool) \<times> files" where
  "retrieve_cover url params env fs =
     (case fst env of
        CoverConnectorError \<Rightarrow> (Inr False, fs)
      | CoverRaises e \<Rightarrow> (Inl e, fs)
      | CoverStatus status body \<Rightarrow>
          if status = 200 then
            (case isbn_of_url url of
               Inl e \<Rightarrow> (Inl e, fs)
             | Inr isbn \<Rightarrow>
                 (let cover_path = (cover_img_dir params, isbn @ ''.jpeg'')
                  in case snd env of
                       OpenFails \<Rightarrow> (Inl OSError, fs)
                     | WriteFails \<Rightarrow>
                         (case body of
                            Inl e \<Rightarrow> (Inl e, fs(cover_path \<mapsto> Whole (Image [])))
                          | Inr bytes \<Rightarrow> (Inl OSError, fs(cover_path \<mapsto> Partial)))
                     | DiskOk \<Rightarrow>
                         (case body of
                            Inl e \<Rightarrow> (Inl e, fs(cover_path \<mapsto> Whole (Image [])))
                          | Inr bytes \<Rightarrow> (Inr True, fs(cover_path \<mapsto> Whole (Image bytes))))))
          else (Inr False, fs))"

section \<open>Page fetch\<close>

definition base_fields :: "string list" where
  "base_fields = [''product_id'', ''title'', ''authors'', ''description'', ''language'',
                  ''categories'', ''url'', ''cover_image'']"

definition custom_attr_fields :: "string list" where
  "custom_attr_fields = [''publication_date'', ''publishers'', ''page_count'', ''average_rating'']"

text \<open>A loop whose body may raise: the first exception ends it.\<close>

fun traverse :: "('a \<Rightarrow> exn + 'b) \<Rightarrow> 'a list \<Rightarrow> exn + 'b list" where
  "traverse f [] = Inr []"
| "traverse f (x # xs) =
     (case f x of
        Inl e \<Rightarrow> Inl e
      | Inr y \<Rightarrow> (case traverse f xs of Inl e \<Rightarrow> Inl e | Inr ys \<Rightarrow> Inr (y # ys)))"

text \<open>
  The extraction of one product (the body of the loop up to the cover fetch): the dict
  comprehension over \<open>base_fields\<close> with \<^verbatim>\<open>prod.get(field)\<close>, then
  \<^verbatim>\<open>data[field] = prod['custom_attributes'][field]\<close> for each custom attribute. The
  record is the dict \<open>data\<close>, its keys in insertion order.
\<close>

definition extract_record :: "json \<Rightarrow> exn + (string \<times> json) list" where
  "extract_record product =
     (case traverse (\<lambda>field. case dict_get product field of
                                 Inl e \<Rightarrow> Inl e | Inr v \<Rightarrow> Inr (field, v)) base_fields of
        Inl e \<Rightarrow> Inl e
      | Inr data \<Rightarrow>
          (case traverse (\<lambda>field. case subscript product ''custom_attributes'' of
                                      Inl e \<Rightarrow> Inl e
                                    | Inr attrs \<Rightarrow>
                                        (case subscript attrs field of
                                           Inl e \<Rightarrow> Inl e | Inr v \<Rightarrow> Inr (field, v)))
                         custom_attr_fields of
             Inl e \<Rightarrow> Inl e
           | Inr custom \<Rightarrow> Inr (data @ custom)))"

text \<open>
  \<^verbatim>\<open>params.build_cover_img_url(base_url)\<close>, the f-string \<^verbatim>\<open>f'{base_url}{self.img_size}'\<close>.
  \<open>py_str\<close> is Python's \<^verbatim>\<open>str\<close> on a decoded value, a parameter of the model.
\<close>

definition build_cover_img_url :: "(json \<Rightarrow> string) \<Rightarrow> json \<Rightarrow> string" where
  "build_cover_img_url py_str base_url = py_str base_url @ img_size"

text \<open>\<^verbatim>\<open>data.get('cover_image')\<close> on the extracted record.\<close>

definition cover_image_of :: "(string \<times> json) list \<Rightarrow> json" where
  "cover_image_of data = (case map_of data ''cover_image'' of None \<Rightarrow> JNull | Some v \<Rightarrow> v)"

text \<open>
  The loop \<^verbatim>\<open>for prod in products\<close>. \<open>cenv\<close> gives the environment of the cover fetch of
  each remaining product, by position. An element pairs the record with
  \<^verbatim>\<open>int(cover_status)\<close>.
\<close>

fun products_loop ::
  "(json \<Rightarrow> string) \<Rightarrow> ScraperParams \<Rightarrow> json list \<Rightarrow> (nat \<Rightarrow> cover_env) \<Rightarrow> files
     \<Rightarrow> (exn + ((string \<times> json) list \<times> int) list) \<times> files" where
  "products_loop py_str params [] cenv fs = (Inr [], fs)"
| "products_loop py_str params (product # prods) cenv fs =
     (case extract_record product of
        Inl e \<Rightarrow> (Inl e, fs)
      | Inr data \<Rightarrow>
          (case retrieve_cover (build_cover_img_url py_str (cover_image_of data)) params (cenv 0) fs of
             (Inl e, fs') \<Rightarrow> (Inl e, fs')
           | (Inr cover_status, fs') \<Rightarrow>
               (case products_loop py_str params prods (\<lambda>i. cenv (Suc i)) fs' of
                  (Inl e, fs'') \<Rightarrow> (Inl e, fs'')
                | (Inr elems, fs'') \<Rightarrow>
                    (Inr ((data, if cover_status then 1 else 0) # elems), fs''))))"

type_synonym page_env = "page_response \<times> (nat \<Rightarrow> cover_env)"

type_synonym page_outcome = "((string \<times> json) list \<times> int) list \<times> string \<times> bool"

text \<open>\<^verbatim>\<open>content['data']['products']\<close>, then the values the loop iterates over.\<close>

definition products_of :: "json \<Rightarrow> exn + json list" where
  "products_of content =
     (case subscript content ''data'' of
        Inl e \<Rightarrow> Inl e
      | Inr d \<Rightarrow> (case subscript d ''products'' of Inl e \<Rightarrow> Inl e | Inr ps \<Rightarrow> py_iter ps))"

text \<open>
  \<^verbatim>\<open>retrieve_book_page(url, params, sem)\<close>, without the limiter. The one handler is for
  \<open>ClientConnectorError\<close>, which only the page request itself can raise here
  (\<open>retrieve_cover\<close> catches its own): then \<^verbatim>\<open>elems\<close> is still empty and \<^verbatim>\<open>is_ok\<close> false.
\<close>

definition retrieve_book_page ::
  "(json \<Rightarrow> string) \<Rightarrow> string \<Rightarrow> ScraperParams \<Rightarrow> page_env \<Rightarrow> files
     \<Rightarrow> (exn + page_outcome) \<times> files" where
  "retrieve_book_page py_str url params env fs =
     (case fst env of
        PageConnectorError \<Rightarrow> (Inr ([], url, False), fs)
      | PageRaises e \<Rightarrow> (Inl e, fs)
      | PageBody (Inl e) \<Rightarrow> (Inl e, fs)
      | PageBody (Inr content) \<Rightarrow>
          (case products_of content of
             Inl e \<Rightarrow> (Inl e, fs)
           | Inr products \<Rightarrow>
               (case products_loop py_str params products (snd env) fs of
                  (Inl e, fs') \<Rightarrow> (Inl e, fs')
                | (Inr elems, fs') \<Rightarrow> (Inr (elems, url, True), fs'))))"

text \<open>
  \<^verbatim>\<open>main(urls, params, semaphore)\<close>: one \<open>retrieve_book_page\<close> per URL, gathered. The
  result lists the outcomes in the order of \<open>urls\<close>; an exception raised by one of the
  coroutines is raised to the caller. \<open>env\<close> gives the environment of each page fetch by
  position; the pages run here one after the other.
\<close>

fun main ::
  "(json \<Rightarrow> string) \<Rightarrow> string list \<Rightarrow> ScraperParams \<Rightarrow> (nat \<Rightarrow> page_env) \<Rightarrow> files
     \<Rightarrow> (exn + page_outcome list) \<times> files" where
  "main py_str [] params env fs = (Inr [], fs)"
| "main py_str (url # urls) params env fs =
     (case retrieve_book_page py_str url params (env 0) fs of
        (Inl e, fs') \<Rightarrow> (Inl e, fs')
      | (Inr res, fs') \<Rightarrow>
          (case main py_str urls params (\<lambda>i. env (Suc i)) fs' of
             (Inl e, fs'') \<Rightarrow> (Inl e, fs'')
           | (Inr results, fs'') \<Rightarrow> (Inr (res # results), fs'')))"

section \<open>Result Serializer\<close>

text \<open>
  \<^verbatim>\<open>params.page_num_from_url(url)\<close>, that is \<^verbatim>\<open>parse_qs(urlsplit(url).query)['page'][0]\<close>.
  \<open>parse_query\<close> is the library's part, \<^verbatim>\<open>parse_qs(urlsplit(url).query)\<close>, a parameter of
  the model: the dict from a parameter name to the list of its values.
\<close>

definition page_num_from_url :: "(string \<Rightarrow> string \<rightharpoonup> string list) \<Rightarrow> string \<Rightarrow> exn + string" where
  "page_num_from_url parse_query url =
     (case parse_query url ''page'' of
        None \<Rightarrow> Inl KeyError
      | Some [] \<Rightarrow> Inl IndexError
      | Some (page # _) \<Rightarrow> Inr page)"

text \<open>
  \<^verbatim>\<open>serialize_results(results, params, book_count, cover_count)\<close>: one artifact per
  element of \<open>results\<close>, whatever its status flag, which the loop discards. \<open>disk\<close>
  gives the outcome of each \<^verbatim>\<open>open\<close> and \<^verbatim>\<open>json.dump\<close> by position.
\<close>

fun serialize_results ::
  "(string \<Rightarrow> string \<rightharpoonup> string list) \<Rightarrow> page_outcome list \<Rightarrow> ScraperParams \<Rightarrow> int \<Rightarrow> int
     \<Rightarrow> (nat \<Rightarrow> disk_outcome) \<Rightarrow> files \<Rightarrow> (exn + int \<times> int) \<times> files" where
  "serialize_results parse_query [] params book_count cover_count disk fs =
     (Inr (book_count, cover_count), fs)"
| "serialize_results parse_query ((res, url, is_ok) # results) params book_count cover_count disk fs =
     (case page_num_from_url parse_query url of
        Inl e \<Rightarrow> (Inl e, fs)
      | Inr page_num \<Rightarrow>
          (let page_path = (json_dir params, page_num @ ''.json'');
               serialize_data = map fst res
           in case disk 0 of
                OpenFails \<Rightarrow> (Inl OSError, fs)
              | WriteFails \<Rightarrow> (Inl OSError, fs(page_path \<mapsto> Partial))
              | DiskOk \<Rightarrow>
                  serialize_results parse_query results params
                    (book_count + int (length serialize_data))
                    (cover_count + sum_list (map snd res))
                    (\<lambda>i. disk (Suc i))
                    (fs(page_path \<mapsto> Whole (Document (JArr (map JObj serialize_data)))))))"

section \<open>Retry Orchestrator\<close>

text \<open>
  The two runs of the script (from \<^verbatim>\<open># First run\<close> to the report of the pages that
  failed twice), for the list \<open>urls\<close> of the planned pages. \<open>env1\<close>, \<open>env2\<close> are the
  network and \<open>disk1\<close>, \<open>disk2\<close> the disk of the two passes. The result is
  \<^verbatim>\<open>(b_count, c_count)\<close> and the final \<^verbatim>\<open>missing_pages\<close>.
\<close>

definition run_passes ::
  "(json \<Rightarrow> string) \<Rightarrow> (string \<Rightarrow> string \<rightharpoonup> string list) \<Rightarrow> string list \<Rightarrow> ScraperParams
     \<Rightarrow> (nat \<Rightarrow> page_env) \<Rightarrow> (nat \<Rightarrow> page_env) \<Rightarrow> (nat \<Rightarrow> disk_outcome) \<Rightarrow> (nat \<Rightarrow> disk_outcome)
     \<Rightarrow> files \<Rightarrow> (exn + (int \<times> int) \<times> string list) \<times> files" where
  "run_passes py_str parse_query urls params env1 env2 disk1 disk2 fs =
     (case main py_str urls params env1 fs of
        (Inl e, fs1) \<Rightarrow> (Inl e, fs1)
      | (Inr results, fs1) \<Rightarrow>
          (let retrieved_pages = map (\<lambda>res. fst (snd res)) (filter (\<lambda>res. snd (snd res)) results);
               missing_pages = map (\<lambda>res. fst (snd res)) (filter (\<lambda>res. \<not> snd (snd res)) results)
           in case serialize_results parse_query results params 0 0 disk1 fs1 of
                (Inl e, fs2) \<Rightarrow> (Inl e, fs2)
              | (Inr (b_count, c_count), fs2) \<Rightarrow>
                  if missing_pages \<noteq> [] then
                    (case main py_str missing_pages params env2 fs2 of
                       (Inl e, fs3) \<Rightarrow> (Inl e, fs3)
                     | (Inr results2, fs3) \<Rightarrow>
                         (let retrieved_pages2 = filter (\<lambda>res. snd (snd res)) results2;
                              missing_pages2 = map (\<lambda>res. fst (snd res))
                                                 (filter (\<lambda>res. \<not> snd (snd res)) results2)
                          in case serialize_results parse_query retrieved_pages2 params
                                    b_count c_count disk2 fs3 of
                               (Inl e, fs4) \<Rightarrow> (Inl e, fs4)
                             | (Inr counts, fs4) \<Rightarrow> (Inr (counts, missing_pages2), fs4)))
                  else (Inr ((b_count, c_count), missing_pages), fs2)))"

section \<open>Merge Stage\<close>

definition is_digit :: "char \<Rightarrow> bool" where
  "is_digit c = (c \<in> set ''0123456789'')"

text \<open>
  \<^verbatim>\<open>re.match('[0-9]{1,3}.json', name)\<close>: at the start of the name, one to three digits,
  then any character but a newline, then \<^verbatim>\<open>json\<close>; what follows is not looked at.
\<close>

definition re_match_page :: "string \<Rightarrow> bool" where
  "re_match_page name =
     list_ex (\<lambda>k. k + 5 \<le> length name \<and> list_all is_digit (take k name)
                  \<and> name ! k \<noteq> CHR 0x0A \<and> take 4 (drop (Suc k) name) = ''json'')
             [1, 2, 3]"

text \<open>\<^verbatim>\<open>s.replace('.json', '')\<close>: every occurrence removed, left to right.\<close>

fun remove_json :: "string \<Rightarrow> string" where
  "remove_json [] = []"
| "remove_json (c # cs) =
     (if take 5 (c # cs) = ''.json'' then remove_json (drop 4 cs) else c # remove_json cs)"

text \<open>
  \<^verbatim>\<open>int(s)\<close> on a string: surrounding whitespace is dropped, a sign may lead, and the
  digits may be grouped by single underscores. Characters are bytes here, so the digits
  are the ASCII ones.
\<close>

definition is_space :: "char \<Rightarrow> bool" where
  "is_space c = (c \<in> set [CHR 0x09, CHR 0x0A, CHR 0x0B, CHR 0x0C, CHR 0x0D,
                            CHR 0x1C, CHR 0x1D, CHR 0x1E, CHR 0x1F, CHR 0x20])"

definition strip :: "string \<Rightarrow> string" where
  "strip s = rev (dropWhile is_space (rev (dropWhile is_space s)))"

definition digit_val :: "char \<Rightarrow> nat" where
  "digit_val c = of_char c - 48"

fun int_digits :: "nat \<Rightarrow> string \<Rightarrow> nat option" where
  "int_digits acc [] = Some acc"
| "int_digits acc [c] = (if is_digit c then Some (10 * acc + digit_val c) else None)"
| "int_digits acc (c # d # cs) =
     (if is_digit c then int_digits (10 * acc + digit_val c) (d # cs)
      else if c = CHR ''_'' \<and> is_digit d then int_digits (10 * acc + digit_val d) cs
      else None)"

definition int_literal :: "string \<Rightarrow> nat option" where
  "int_literal s =
     (case s of [] \<Rightarrow> None | c # cs \<Rightarrow> if is_digit c then int_digits (digit_val c) cs else None)"

definition py_int :: "string \<Rightarrow> exn + int" where
  "py_int s =
     (let t = strip s
      in case t of
           [] \<Rightarrow> Inl ValueError
         | c # cs \<Rightarrow>
             if c = CHR ''-'' then
               (case int_literal cs of None \<Rightarrow> Inl ValueError | Some n \<Rightarrow> Inr (- int n))
             else if c = CHR ''+'' then
               (case int_literal cs of None \<Rightarrow> Inl ValueError | Some n \<Rightarrow> Inr (int n))
             else
               (case int_literal t of None \<Rightarrow> Inl ValueError | Some n \<Rightarrow> Inr (int n)))"

text \<open>\<^verbatim>\<open>fname_to_int\<close>, on the name of the file.\<close>

definition fname_to_int :: "string \<Rightarrow> exn + int" where
  "fname_to_int name = py_int (remove_json name)"

text \<open>
  An entry of the source directory: the name of the file, with what \<^verbatim>\<open>json.load\<close> of it
  returns or raises.
\<close>

type_synonym entry = "string \<times> (exn + json)"

text \<open>The key \<^verbatim>\<open>sorted\<close> computes for an entry, kept with the entry.\<close>

definition keyed :: "entry \<Rightarrow> exn + (int \<times> entry)" where
  "keyed x = (case fname_to_int (fst x) of Inl e \<Rightarrow> Inl e | Inr k \<Rightarrow> Inr (k, x))"

text \<open>
  What one round of the reading loop appends: \<^verbatim>\<open>grouped_data += json.load(file_obj)\<close>
  extends the list by the elements of the loaded value.
\<close>

definition load_file :: "entry \<Rightarrow> exn + json list" where
  "load_file x = (case snd x of Inl e \<Rightarrow> Inl e | Inr v \<Rightarrow> py_iter v)"

text \<open>
  \<^verbatim>\<open>join_data_files(source_path, dest_path)\<close>. \<open>listing\<close> is what
  \<^verbatim>\<open>source_path.iterdir()\<close> yields, in the order the system lists it (or the exception
  it raises). \<open>dest\<close> is the content of the destination file, which is not one of the
  entries read, and \<open>disk\<close> the outcome of writing it. The keys of \<^verbatim>\<open>sorted\<close> are all
  computed before the first file is read; the sort is stable. The handler catches every
  exception, so the result is the flag \<^verbatim>\<open>is_ok\<close> and the destination file as it is left.
\<close>

definition join_data_files ::
  "exn + entry list \<Rightarrow> json fcontent option \<Rightarrow> disk_outcome \<Rightarrow> bool \<times> json fcontent option" where
  "join_data_files listing dest disk =
     (case listing of
        Inl e \<Rightarrow> (False, dest)
      | Inr entries \<Rightarrow>
          (case traverse keyed (filter (\<lambda>x. re_match_page (fst x)) entries) of
             Inl e \<Rightarrow> (False, dest)
           | Inr ordered_json_paths \<Rightarrow>
               (case traverse (\<lambda>n. load_file (snd n)) (sort_key fst ordered_json_paths) of
                  Inl e \<Rightarrow> (False, dest)
                | Inr loaded \<Rightarrow>
                    (case disk of
                       OpenFails \<Rightarrow> (False, dest)
                     | WriteFails \<Rightarrow> (False, Some Partial)
                     | DiskOk \<Rightarrow> (True, Some (Whole (JArr (concat loaded))))))))"

section \<open>Derived notions\<close>

text \<open>
  The flag a cover fetch returns does not depend on the files present; \<open>cover_status\<close>
  names it (lemma \<open>fst_retrieve_cover\<close> below).
\<close>

definition cover_status :: "string \<Rightarrow> ScraperParams \<Rightarrow> cover_env \<Rightarrow> exn + bool" where
  "cover_status url params env = fst (retrieve_cover url params env Map.empty)"



text \<open>
  The name of an artifact as the Serializer's pattern describes it: one to three digits
  followed by \<^verbatim>\<open>.json\<close>, and nothing else.
\<close>

definition page_file_name :: "string \<Rightarrow> bool" where
  "page_file_name name =
     list_ex (\<lambda>k. length name = k + 5 \<and> list_all is_digit (take k name) \<and> drop k name = ''.json'')
             [1, 2, 3]"

text \<open>The entries the scan keeps, and the page identifier parsed from the name of one.\<close>

definition selected :: "entry list \<Rightarrow> entry list" where
  "selected entries = filter (\<lambda>x. re_match_page (fst x)) entries"

definition page_id :: "entry \<Rightarrow> int" where
  "page_id x = projr (fname_to_int (fst x))"

section \<open>Sample inputs\<close>

definition sample_params :: ScraperParams where
  "sample_params = \<lparr>start_date = ''2018-01-01'', end_date = ''2023-12-31'', entries_per_page = 50,
                     json_dir = ''data'', cover_img_dir = ''cover_images''\<rparr>"

definition sample_str :: "json \<Rightarrow> string" where
  "sample_str v = (case v of JStr s \<Rightarrow> s | _ \<Rightarrow> ''None'')"

definition sample_attrs :: "(string \<times> json) list" where
  "sample_attrs = [(''publication_date'', JStr ''2020-05-01''), (''publishers'', JArr [JStr ''Apress'']),
                   (''page_count'', JNum 300), (''average_rating'', JNum 4)]"



definition page_body :: "json list \<Rightarrow> json" where
  "page_body products = JObj [(''data'', JObj [(''products'', JArr products)])]"


definition all_covers_ok :: "nat \<Rightarrow> cover_env" where
  "all_covers_ok i = (CoverStatus 200 (Inr ''img''), DiskOk)"


definition product_missing_title :: json where
  "product_missing_title =
     JObj [(''product_id'', JStr ''11''), (''cover_image'', JStr ''https://covers/11/''),
           (''custom_attributes'', JObj sample_attrs)]"

definition product_missing_rating :: json where
  "product_missing_rating =
     JObj [(''product_id'', JStr ''11''), (''title'', JStr ''T''),
           (''cover_image'', JStr ''https://covers/11/''),
           (''custom_attributes'',
            JObj [(''publication_date'', JStr ''2020-05-01''), (''publishers'', JArr [JStr ''Apress'']),
                  (''page_count'', JNum 300)])]"

definition page_missing_rating :: "nat \<Rightarrow> page_env" where
  "page_missing_rating i = (PageBody (Inr (page_body [product_missing_rating])), all_covers_ok)"



definition three_artifacts :: "entry list" where
  "three_artifacts =
     [(''2.json'', Inr (JArr [JStr ''b''])),
      (''10.json'', Inr (JArr [JStr ''c'', JStr ''d''])),
      (''dataset.json'', Inr (JArr [JStr ''old''])),
      (''1.json'', Inr (JArr [JStr ''a'']))]"

definition two_names_one_page :: "entry list" where
  "two_names_one_page =
     [(''01.json'', Inr (JArr [JStr ''b''])), (''1.json'', Inr (JArr [JStr ''a'']))]"




section \<open>Properties of the Request Planner\<close>

lemma ceil_div_is_ceiling: "ceil_div a b = \<lceil>real_of_int a / real_of_int b\<rceil>"
proof -
  have "\<lfloor>real_of_int (- a) / real_of_int b\<rfloor> = (- a) div b"
    by (rule floor_divide_of_int_eq)
  then show ?thesis
    by (simp add: ceil_div_def ceiling_def)
qed

lemma plan_recon_body:
  "plan (Some g) params (PageBody (Inr (recon_body num))) =
     (if g = 0 then Inl ZeroDivisionError else Inr (Some (JNum num, ceil_div num g)))"
  by (simp add: plan_def recon_body_def)

text \<open>
  C5. The Planner should return \<open>(total, ceil (total / page_size))\<close> for the page size it
  is passed. The body divides by the module global instead: called with a page size of 10
  while the global is 50, on a reported total of 5522, it answers 111 pages, where the
  page size it was passed gives 553.
\<close>

theorem plan_ignores_page_size_parameter:
  "plan (Some 50)
        \<lparr>start_date = ''2018-01-01'', end_date = ''2023-12-31'', entries_per_page = 10,
         json_dir = ''data'', cover_img_dir = ''cover_images''\<rparr>
        (PageBody (Inr (recon_body 5522)))
     = Inr (Some (JNum 5522, 111))
   \<and> ceil_div 5522 10 = 553"
  by (simp add: plan_def recon_body_def ceil_div_def)

section \<open>Properties of the cover fetch\<close>



text \<open>
  C10. A cover fetch returns true exactly when the response has status 200, its bytes are
  read and the file is written: then the cover file holds those bytes. A response with
  any other status leaves the files as they were, returns false and raises nothing.
\<close>

theorem retrieve_cover_success_iff:
  "(fst (retrieve_cover url params env fs) = Inr True
      \<longleftrightarrow> (\<exists>bytes isbn. fst env = CoverStatus 200 (Inr bytes) \<and> isbn_of_url url = Inr isbn
                         \<and> snd env = DiskOk))
   \<and> (\<forall>bytes isbn. fst env = CoverStatus 200 (Inr bytes) \<and> isbn_of_url url = Inr isbn \<and> snd env = DiskOk
          \<longrightarrow> snd (retrieve_cover url params env fs)
                = fs((cover_img_dir params, isbn @ ''.jpeg'') \<mapsto> Whole (Image bytes)))
   \<and> (\<forall>status body. fst env = CoverStatus status body \<and> status \<noteq> 200
          \<longrightarrow> retrieve_cover url params env fs = (Inr False, fs))"
  by (auto simp: retrieve_cover_def Let_def
           split: cover_response.splits sum.splits disk_outcome.splits if_splits)

lemma isbn_of_sample_url: "isbn_of_url ''https://covers/9781/500w'' = Inr ''9781''"
  by (simp add: isbn_of_url_def)

theorem retrieve_cover_success_iff_witness:
  "fst (retrieve_cover ''https://covers/9781/500w'' sample_params
          (CoverStatus 200 (Inr ''img''), DiskOk) Map.empty) = Inr True
   \<and> snd (retrieve_cover ''https://covers/9781/500w'' sample_params
          (CoverStatus 200 (Inr ''img''), DiskOk) Map.empty)
       = [(''cover_images'', ''9781.jpeg'') \<mapsto> Whole (Image ''img'')]
   \<and> retrieve_cover ''https://covers/9781/500w'' sample_params
          (CoverStatus 404 (Inr ''img''), DiskOk) Map.empty = (Inr False, Map.empty)"
  using retrieve_cover_success_iff [of "''https://covers/9781/500w''" sample_params
          "(CoverStatus 200 (Inr ''img''), DiskOk)" Map.empty]
        retrieve_cover_success_iff [of "''https://covers/9781/500w''" sample_params
          "(CoverStatus 404 (Inr ''img''), DiskOk)" Map.empty]
  by (simp add: isbn_of_sample_url sample_params_def)

section \<open>Properties of the page fetch\<close>

lemma traverse_length: "traverse f xs = Inr ys \<Longrightarrow> length ys = length xs"
  by (induction xs arbitrary: ys) (auto split: sum.splits)








text \<open>
  C8. A top-level field missing from a product is recorded as \<open>None\<close>, but a missing
  custom attribute is not: \<^verbatim>\<open>prod['custom_attributes'][field]\<close> raises \<open>KeyError\<close>, which no
  handler catches, so the extraction, the page fetch and the whole batch raise.
\<close>

theorem missing_custom_attribute_raises:
  "map_of (projr (extract_record product_missing_title)) ''title'' = Some JNull
   \<and> extract_record product_missing_rating = Inl KeyError
   \<and> fst (main sample_str [''p1''] sample_params page_missing_rating Map.empty) = Inl KeyError"
  by (simp add: extract_record_def product_missing_title_def product_missing_rating_def
      sample_attrs_def base_fields_def custom_attr_fields_def page_missing_rating_def
      retrieve_book_page_def products_of_def page_body_def)

section \<open>Properties of the Fetcher\<close>





section \<open>Properties of the Merge Stage\<close>

lemma digit_facts:
  assumes "is_digit c"
  shows "\<not> is_space c" "c \<noteq> CHR ''.''" "c \<noteq> CHR ''-''" "c \<noteq> CHR ''+''" "c \<noteq> CHR ''_''" "c \<noteq> CHR 0x0A"
  using assms by (auto simp: is_digit_def is_space_def)

lemma page_file_name_cases:
  assumes "page_file_name name"
  obtains a where "is_digit a" "name = [a] @ ''.json''"
  | a b where "is_digit a" "is_digit b" "name = [a, b] @ ''.json''"
  | a b c where "is_digit a" "is_digit b" "is_digit c" "name = [a, b, c] @ ''.json''"
proof -
  from assms consider
    "length name = 6 \<and> list_all is_digit (take 1 name) \<and> drop 1 name = ''.json''"
    | "length name = 7 \<and> list_all is_digit (take 2 name) \<and> drop 2 name = ''.json''"
    | "length name = 8 \<and> list_all is_digit (take 3 name) \<and> drop 3 name = ''.json''"
    by (auto simp: page_file_name_def)
  then show thesis
  proof cases
    case 1
    then obtain a r where n: "name = a # r" by (cases name) auto
    with 1 have "is_digit a" "r = ''.json''" by auto
    with n that(1) show thesis by simp
  next
    case 2
    then obtain a b r where n: "name = a # b # r"
      by (cases name; cases "tl name") auto
    with 2 have "is_digit a" "is_digit b" "r = ''.json''" by auto
    with n that(2) show thesis by simp
  next
    case 3
    then obtain a b c r where n: "name = a # b # c # r"
      by (cases name; cases "tl name"; cases "tl (tl name)") auto
    with 3 have "is_digit a" "is_digit b" "is_digit c" "r = ''.json''" by auto
    with n that(3) show thesis by simp
  qed
qed

lemma page_file_name_match:
  assumes "page_file_name name"
  shows "re_match_page name"
  using assms
  by (rule page_file_name_cases) (simp_all add: re_match_page_def)

lemma digit_val_le: "is_digit c \<Longrightarrow> digit_val c \<le> 9"
  by (auto simp: is_digit_def digit_val_def)

lemma page_file_name_int:
  assumes "page_file_name name"
  shows "\<exists>k. fname_to_int name = Inr k \<and> 0 \<le> k \<and> k \<le> 999"
  using assms
proof (rule page_file_name_cases)
  fix a assume d: "is_digit a" and n: "name = [a] @ ''.json''"
  have "fname_to_int name = Inr (int (digit_val a))"
    using d n by (simp add: fname_to_int_def py_int_def strip_def int_literal_def digit_facts)
  with digit_val_le [OF d] show ?thesis by simp
next
  fix a b assume d: "is_digit a" "is_digit b" and n: "name = [a, b] @ ''.json''"
  have "fname_to_int name = Inr (int (10 * digit_val a + digit_val b))"
    using d n by (simp add: fname_to_int_def py_int_def strip_def int_literal_def digit_facts)
  with digit_val_le [OF d(1)] digit_val_le [OF d(2)] show ?thesis by simp
next
  fix a b c assume d: "is_digit a" "is_digit b" "is_digit c" and n: "name = [a, b, c] @ ''.json''"
  have "fname_to_int name = Inr (int (10 * (10 * digit_val a + digit_val b) + digit_val c))"
    using d n by (simp add: fname_to_int_def py_int_def strip_def int_literal_def digit_facts)
  with digit_val_le [OF d(1)] digit_val_le [OF d(2)] digit_val_le [OF d(3)] show ?thesis by simp
qed


lemma traverse_all_Inr:
  "\<forall>x\<in>set xs. \<not> isl (f x) \<Longrightarrow> traverse f xs = Inr (map (\<lambda>x. projr (f x)) xs)"
  by (induction xs) (auto split: sum.splits)

lemma insort_key_map:
  "insort_key f (g x) (map g ys) = map g (insort_key (\<lambda>y. f (g y)) x ys)"
  by (induction ys) auto

lemma sort_key_map:
  "sort_key f (map g xs) = map g (sort_key (\<lambda>y. f (g y)) xs)"
  by (induction xs) (auto simp: insort_key_map)

lemma keyed_Inr: "\<not> isl (fname_to_int (fst x)) \<Longrightarrow> keyed x = Inr (page_id x, x)"
  by (cases "fname_to_int (fst x)") (auto simp: keyed_def page_id_def)

lemma isl_keyed: "isl (keyed x) \<longleftrightarrow> isl (fname_to_int (fst x))"
  by (cases "fname_to_int (fst x)") (auto simp: keyed_def)

lemma join_data_files_merges:
  assumes "\<forall>x\<in>set (selected entries). \<not> isl (fname_to_int (fst x))"
    and "\<forall>x\<in>set (selected entries). \<not> isl (load_file x)"
  shows "join_data_files (Inr entries) dest DiskOk =
           (True, Some (Whole (JArr (concat (map (\<lambda>x. projr (load_file x))
                                               (sort_key page_id (selected entries)))))))"
proof -
  have k: "traverse keyed (selected entries) = Inr (map (\<lambda>x. (page_id x, x)) (selected entries))"
  proof -
    have "\<forall>x\<in>set (selected entries). \<not> isl (keyed x)"
      using assms(1) by (simp add: isl_keyed)
    then have "traverse keyed (selected entries) = Inr (map (\<lambda>x. projr (keyed x)) (selected entries))"
      by (rule traverse_all_Inr)
    also have "map (\<lambda>x. projr (keyed x)) (selected entries) = map (\<lambda>x. (page_id x, x)) (selected entries)"
      using assms(1) by (intro map_cong refl) (simp add: keyed_Inr)
    finally show ?thesis .
  qed
  have s: "sort_key fst (map (\<lambda>x. (page_id x, x)) (selected entries)) =
           map (\<lambda>x. (page_id x, x)) (sort_key page_id (selected entries))"
    by (simp add: sort_key_map)
  have l: "traverse (\<lambda>n. load_file (snd n)) (map (\<lambda>x. (page_id x, x)) (sort_key page_id (selected entries)))
           = Inr (map (\<lambda>x. projr (load_file x)) (sort_key page_id (selected entries)))"
  proof -
    have "\<forall>n\<in>set (map (\<lambda>x. (page_id x, x)) (sort_key page_id (selected entries))). \<not> isl (load_file (snd n))"
      using assms(2) by simp
    then have "traverse (\<lambda>n. load_file (snd n)) (map (\<lambda>x. (page_id x, x)) (sort_key page_id (selected entries)))
       = Inr (map (\<lambda>n. projr (load_file (snd n))) (map (\<lambda>x. (page_id x, x)) (sort_key page_id (selected entries))))"
      by (rule traverse_all_Inr)
    then show ?thesis by (simp add: comp_def)
  qed
  show ?thesis
    using k s l by (simp add: join_data_files_def selected_def [symmetric])
qed

lemma filter_same_key:
  "distinct (map f zs) \<Longrightarrow> k \<in> set zs \<Longrightarrow> filter (\<lambda>x. f k = f x) zs = [k]"
proof (induction zs)
  case Nil
  then show ?case by simp
next
  case (Cons z zs)
  show ?case
  proof (cases "k = z")
    case True
    have "filter (\<lambda>x. f z = f x) zs = []"
      using Cons.prems(1) by (auto simp: filter_empty_conv)
    with True show ?thesis by simp
  next
    case False
    with Cons.prems have kz: "k \<in> set zs" by simp
    with Cons.prems(1) have "f k \<noteq> f z" by (auto simp: image_iff)
    with kz Cons show ?thesis by simp
  qed
qed

lemma sort_key_mset_unique:
  assumes "mset xs = mset ys" and "distinct (map f ys)"
  shows "sort_key f xs = sort_key f ys"
proof (rule properties_for_sort_key)
  show "mset (sort_key f ys) = mset xs" using assms(1) by simp
  show "sorted (map f (sort_key f ys))" by simp
  fix k assume "k \<in> set (sort_key f ys)"
  then have ky: "k \<in> set ys" by simp
  have dx: "distinct (map f xs)"
    using assms by (metis distinct_map mset_eq_imp_distinct_iff mset_map)
  have kx: "k \<in> set xs" using ky assms(1) by (metis mset_eq_setD)
  have ds: "distinct (map f (sort_key f ys))"
    using assms(2) by (simp add: distinct_map)
  show "filter (\<lambda>x. f k = f x) (sort_key f ys) = filter (\<lambda>x. f k = f x) xs"
    using filter_same_key [OF ds] filter_same_key [OF dx kx] ky by simp
qed

text \<open>
  C4 as stated fails: \<^verbatim>\<open>01.json\<close> and \<^verbatim>\<open>1.json\<close> both match the pattern and both parse
  to page 1, so the identifiers of the merged sequence are not strictly ascending, and
  which of the two comes first is the order of the directory listing.
\<close>

theorem merge_order_ties_counterexample:
  "re_match_page ''01.json'' \<and> re_match_page ''1.json''
   \<and> fname_to_int ''01.json'' = Inr 1 \<and> fname_to_int ''1.json'' = Inr 1
   \<and> join_data_files (Inr two_names_one_page) None DiskOk
       = (True, Some (Whole (JArr [JStr ''b'', JStr ''a''])))
   \<and> join_data_files (Inr (rev two_names_one_page)) None DiskOk
       = (True, Some (Whole (JArr [JStr ''a'', JStr ''b''])))"
  by code_simp

text \<open>
  C4, amended. When every name the scan keeps is one to three digits followed by
  \<^verbatim>\<open>.json\<close>, the kept files are readable and their parsed page identifiers are pairwise
  distinct, the merge succeeds and writes the records of the kept files in strictly
  ascending order of the page identifier, whatever the order of the directory listing.
\<close>

theorem merge_order_by_page_number:
  assumes "\<forall>x\<in>set entries. re_match_page (fst x) \<longrightarrow> page_file_name (fst x)"
    and "\<forall>x\<in>set entries. re_match_page (fst x) \<longrightarrow> \<not> isl (load_file x)"
    and "distinct (map page_id (selected entries))"
  shows "(\<exists>ordered. mset ordered = mset (selected entries)
            \<and> sorted_wrt (<) (map page_id ordered)
            \<and> join_data_files (Inr entries) dest DiskOk =
                (True, Some (Whole (JArr (concat (map (\<lambda>x. projr (load_file x)) ordered))))))
       \<and> (\<forall>entries'. mset entries' = mset entries \<longrightarrow>
            join_data_files (Inr entries') dest DiskOk = join_data_files (Inr entries) dest DiskOk)"
proof -
  have keys: "\<forall>x\<in>set (selected es). \<not> isl (fname_to_int (fst x))"
    if "set es = set entries" for es
  proof
    fix x assume "x \<in> set (selected es)"
    with that have "x \<in> set entries" "re_match_page (fst x)" by (auto simp: selected_def)
    with assms(1) have "page_file_name (fst x)" by blast
    from page_file_name_int [OF this] show "\<not> isl (fname_to_int (fst x))" by auto
  qed
  have loads: "\<forall>x\<in>set (selected es). \<not> isl (load_file x)"
    if "set es = set entries" for es
    using that assms(2) by (auto simp: selected_def)
  have merged: "join_data_files (Inr es) dest DiskOk =
           (True, Some (Whole (JArr (concat (map (\<lambda>x. projr (load_file x))
                                               (sort_key page_id (selected es)))))))"
    if "set es = set entries" for es
    by (rule join_data_files_merges [OF keys [OF that] loads [OF that]])
  let ?ordered = "sort_key page_id (selected entries)"
  have "sorted (map page_id ?ordered)" by simp
  moreover have "distinct (map page_id ?ordered)"
    using assms(3) by (simp add: distinct_map)
  ultimately have strict: "sorted_wrt (<) (map page_id ?ordered)"
    by (simp add: strict_sorted_iff)
  have first: "\<exists>ordered. mset ordered = mset (selected entries)
            \<and> sorted_wrt (<) (map page_id ordered)
            \<and> join_data_files (Inr entries) dest DiskOk =
                (True, Some (Whole (JArr (concat (map (\<lambda>x. projr (load_file x)) ordered)))))"
    using strict merged [OF refl]
    by - (rule exI [of _ ?ordered], simp)
  have second: "join_data_files (Inr entries') dest DiskOk = join_data_files (Inr entries) dest DiskOk"
    if m: "mset entries' = mset entries" for entries'
  proof -
    have se: "set entries' = set entries" using m by (rule mset_eq_setD)
    have "mset (selected entries') = mset (selected entries)"
      unfolding selected_def mset_filter m ..
    then have "sort_key page_id (selected entries') = sort_key page_id (selected entries)"
      using assms(3) by (rule sort_key_mset_unique)
    with merged [OF se] merged [OF refl] show ?thesis by simp
  qed
  from first second show ?thesis by blast
qed

lemma three_artifacts_merged:
  "join_data_files (Inr three_artifacts) None DiskOk
     = (True, Some (Whole (JArr [JStr ''a'', JStr ''b'', JStr ''c'', JStr ''d''])))"
  by code_simp

theorem merge_order_by_page_number_witness:
  "join_data_files (Inr three_artifacts) None DiskOk
     = (True, Some (Whole (JArr [JStr ''a'', JStr ''b'', JStr ''c'', JStr ''d''])))
   \<and> join_data_files (Inr (rev three_artifacts)) None DiskOk
     = join_data_files (Inr three_artifacts) None DiskOk"
proof -
  have 1: "\<forall>x\<in>set three_artifacts. re_match_page (fst x) \<longrightarrow> page_file_name (fst x)"
    by code_simp
  have 2: "\<forall>x\<in>set three_artifacts. re_match_page (fst x) \<longrightarrow> \<not> isl (load_file x)"
    by code_simp
  have 3: "distinct (map page_id (selected three_artifacts))"
    by code_simp
  have "mset (rev three_artifacts) = mset three_artifacts" by simp
  with merge_order_by_page_number [OF 1 2 3, of None] three_artifacts_merged
  show ?thesis by blast
qed






end
